theory Spec2Isabelle
  imports Complex_Main
begin

section \<open>Inverted pendulum on a cart: dynamics model and controller assembly\<close>

text \<open>
  The module \<open>ip.py\<close> holds the class \<open>InvertedPendulum\<close> and the function
  \<open>create_controller\<close>. The formulas of the step are modelled over the real numbers:
  rounding and overflow are outside that model. A float division by zero does not raise
  here (the operands are numpy floats, since \<open>sin\<close> and \<open>cos\<close> come from numpy): it gives
  an infinity or a not-a-number, which is no real number, so the model returns the error
  \<open>NonFinite\<close> in its place. The angle normalisation \<open>__pv\<close> is also modelled in double
  precision, bit for bit, since its range depends on the rounding. A failed dictionary
  lookup raises \<open>KeyError\<close>, a float modulo by zero raises \<open>ZeroDivisionError\<close>.
\<close>

datatype error = NonFinite | KeyError | MalformedTable | ZeroDivisionError

subsection \<open>Float operations\<close>

definition fdiv :: "real \<Rightarrow> real \<Rightarrow> error + real" where
  "fdiv a b = (if b = 0 then Inl NonFinite else Inr (a / b))"

text \<open>
  Python's \<open>%\<close> on floats is the floor-style modulo: the result has the sign of the
  divisor. The only divisor in this module is the positive constant \<open>2 * pi\<close>. This
  is the operation on real numbers; what the doubles do is \<open>float_rem\<close> below.
\<close>

definition float_mod :: "real \<Rightarrow> real \<Rightarrow> real" where
  "float_mod a b = a - b * of_int \<lfloor>a / b\<rfloor>"

subsection \<open>The class InvertedPendulum\<close>

record pendulum =
  self_l :: real
  self_m :: real
  self_mc :: real
  self_dt :: real
  self_O :: real
  self_w :: real
  self_x :: real
  self_v :: real

type_synonym state_tuple = "real \<times> real \<times> real \<times> real"

definition init :: "real \<Rightarrow> real \<Rightarrow> real \<Rightarrow> real \<Rightarrow> pendulum" where
  "init l m mc dt =
     \<lparr>self_l = l, self_m = m, self_mc = mc, self_dt = dt,
      self_O = 0, self_w = 0, self_x = 0, self_v = 0\<rparr>"

definition pv :: "real \<Rightarrow> real" where
  "pv x = float_mod (x + pi) (2 * pi) - pi"

definition set_state :: "pendulum \<Rightarrow> real \<Rightarrow> real \<Rightarrow> real \<Rightarrow> real \<Rightarrow> pendulum" where
  "set_state self O' w x v =
     (let self = self\<lparr>self_O := pv O'\<rparr>;
          self = self\<lparr>self_w := w\<rparr>;
          self = self\<lparr>self_x := x\<rparr>;
          self = self\<lparr>self_v := v\<rparr>
      in self)"

text \<open>
  A method is a function from the object to the object after the call and the value
  returned. \<open>get_state\<close> assigns nothing.
\<close>

definition get_state :: "pendulum \<Rightarrow> pendulum \<times> state_tuple" where
  "get_state self = (self, (self_O self, self_w self, self_x self, self_v self))"

definition apply_F :: "pendulum \<Rightarrow> real \<Rightarrow> error + pendulum \<times> state_tuple" where
  "apply_F self F =
     (let g = 980665 / 100000;
          l = self_l self;
          O' = self_O self;
          w = self_w self;
          x = self_x self;
          v = self_v self;
          so = sin O';
          co = cos O';
          m = self_m self;
          mc = self_mc self;
          dt = self_dt self;
          M = m + mc
      in case fdiv ((- F - m * l * w * w * so) * co) M of Inl e \<Rightarrow> Inl e | Inr t1 \<Rightarrow>
        (case fdiv (m * co * co) M of Inl e \<Rightarrow> Inl e | Inr t2 \<Rightarrow>
        (case fdiv (g * so + t1) (l * (4 / 3 - t2)) of Inl e \<Rightarrow> Inl e | Inr q \<Rightarrow>
        (case fdiv (m * l * (w * w * so - q * co)) M of Inl e \<Rightarrow> Inl e | Inr t3 \<Rightarrow>
        (let a = F - t3;
             self = self\<lparr>self_w := w + q * dt\<rparr>;
             self = self\<lparr>self_O := pv (O' + self_w self * dt)\<rparr>;
             self = self\<lparr>self_v := v + a * dt\<rparr>;
             self = self\<lparr>self_x := x + self_v self * dt\<rparr>
         in Inr (get_state self))))))"

text \<open>
  A driver calls the methods one after another on one object. A run stops at the first
  step whose floats are not real numbers.
\<close>

datatype op = SetState real real real real | GetState | Apply real

fun run :: "pendulum \<Rightarrow> op list \<Rightarrow> error + pendulum" where
  "run self [] = Inr self"
| "run self (SetState O' w x v # ops) = run (set_state self O' w x v) ops"
| "run self (GetState # ops) = run (fst (get_state self)) ops"
| "run self (Apply F # ops) =
     (case apply_F self F of Inl e \<Rightarrow> Inl e | Inr (self', _) \<Rightarrow> run self' ops)"

subsection \<open>The step as the specification words it\<close>

text \<open>
  The angular acceleration, the linear acceleration and the semi-implicit Euler update,
  written from the formulas of the specification, to be compared with \<open>apply_F\<close>.
\<close>

definition spec_q :: "real \<Rightarrow> real \<Rightarrow> real \<Rightarrow> real \<Rightarrow> real \<Rightarrow> real \<Rightarrow> real" where
  "spec_q l m mc \<theta> \<omega> F =
     (980665 / 100000 * sin \<theta> + (- F - m * l * \<omega>\<^sup>2 * sin \<theta>) * cos \<theta> / (m + mc))
       / (l * (4 / 3 - m * (cos \<theta>)\<^sup>2 / (m + mc)))"

definition spec_a :: "real \<Rightarrow> real \<Rightarrow> real \<Rightarrow> real \<Rightarrow> real \<Rightarrow> real \<Rightarrow> real" where
  "spec_a l m mc \<theta> \<omega> F =
     F - (m * l * (\<omega>\<^sup>2 * sin \<theta> - spec_q l m mc \<theta> \<omega> F * cos \<theta>)) / (m + mc)"

definition spec_step :: "pendulum \<Rightarrow> real \<Rightarrow> state_tuple" where
  "spec_step self F =
     (let l = self_l self; m = self_m self; mc = self_mc self; dt = self_dt self;
          \<theta> = self_O self; \<omega> = self_w self;
          \<omega>_new = \<omega> + spec_q l m mc \<theta> \<omega> F * dt;
          \<theta>_new = pv (\<theta> + \<omega>_new * dt);
          v_new = self_v self + spec_a l m mc \<theta> \<omega> F * dt;
          x_new = self_x self + v_new * dt
      in (\<theta>_new, \<omega>_new, x_new, v_new))"

text \<open>The divisors of the step: the total mass and the denominator of \<open>q\<close>.\<close>

definition degenerate :: "pendulum \<Rightarrow> bool" where
  "degenerate self =
     (self_m self + self_mc self = 0 \<or>
      self_l self * (4 / 3 - self_m self * (cos (self_O self))\<^sup>2 / (self_m self + self_mc self)) = 0)"

text \<open>The state with every component negated, as a record.\<close>

definition negate :: "pendulum \<Rightarrow> pendulum" where
  "negate self = self\<lparr>self_O := - self_O self, self_w := - self_w self,
                       self_x := - self_x self, self_v := - self_v self\<rparr>"

subsection \<open>The angle normalisation in double precision\<close>

text \<open>
  A finite double is \<open>m * 2^e\<close> for integers \<open>m\<close> and \<open>e\<close>; \<open>Double m e\<close> is kept with
  \<open>m\<close> odd, or as \<open>Double 0 0\<close>, so that equal doubles are equal terms. A result is
  rounded to 53 significant bits, to the nearest double and to the even one at a tie.
  Overflow, subnormal numbers, infinities, not-a-numbers and the sign of zero are not
  modelled.
\<close>

datatype double = Double int int

function normal :: "int \<Rightarrow> int \<Rightarrow> double" where
  "normal m e = (if m = 0 then Double 0 0
                 else if even m then normal (m div 2) (e + 1)
                 else Double m e)"
  by pat_completeness auto
termination
  by (relation "measure (\<lambda>(m, e). nat \<bar>m\<bar>)") auto

function bitlength :: "int \<Rightarrow> nat" where
  "bitlength m = (if m \<le> 0 then 0 else Suc (bitlength (m div 2)))"
  by pat_completeness auto
termination
  by (relation "measure nat") auto

definition round53 :: "int \<Rightarrow> int \<Rightarrow> double" where
  "round53 m e =
     (let n = bitlength \<bar>m\<bar>
      in if n \<le> 53 then normal m e
         else (let s = n - 53;
                   q = \<bar>m\<bar> div 2 ^ s;
                   r = \<bar>m\<bar> mod 2 ^ s;
                   h = 2 ^ (s - 1);
                   q' = (if h < r \<or> (r = h \<and> odd q) then q + 1 else q)
               in normal (sgn m * q') (e + int s)))"

text \<open>Two doubles as integer multiples of one power of two.\<close>

fun aligned :: "double \<Rightarrow> double \<Rightarrow> int \<times> int \<times> int" where
  "aligned (Double m1 e1) (Double m2 e2) =
     (let e = min e1 e2 in (m1 * 2 ^ nat (e1 - e), m2 * 2 ^ nat (e2 - e), e))"

definition dadd :: "double \<Rightarrow> double \<Rightarrow> double" where
  "dadd x y = (case aligned x y of (a, b, e) \<Rightarrow> round53 (a + b) e)"

definition dsub :: "double \<Rightarrow> double \<Rightarrow> double" where
  "dsub x y = (case aligned x y of (a, b, e) \<Rightarrow> round53 (a - b) e)"

fun dmul :: "double \<Rightarrow> double \<Rightarrow> double" where
  "dmul (Double m1 e1) (Double m2 e2) = round53 (m1 * m2) (e1 + e2)"

definition dless :: "double \<Rightarrow> double \<Rightarrow> bool" where
  "dless x y = (case aligned x y of (a, b, e) \<Rightarrow> a < b)"

definition dzero :: double where
  "dzero = Double 0 0"

text \<open>
  C's \<open>fmod\<close> is exact: the result has the sign of the dividend and is smaller in
  magnitude than the divisor.
\<close>

definition fmod :: "double \<Rightarrow> double \<Rightarrow> double" where
  "fmod x y = (case aligned x y of (a, b, e) \<Rightarrow> normal (sgn a * (\<bar>a\<bar> mod \<bar>b\<bar>)) e)"

text \<open>
  Python's \<open>%\<close> on two floats: \<open>fmod\<close>, and where the remainder is not zero and its sign
  is not the divisor's, the divisor is added to it, which rounds.
\<close>

definition float_rem :: "double \<Rightarrow> double \<Rightarrow> error + double" where
  "float_rem vx wx =
     (if wx = dzero then Inl ZeroDivisionError
      else (let md = fmod vx wx
            in if md \<noteq> dzero
               then (if dless wx dzero \<noteq> dless md dzero then Inr (dadd md wx) else Inr md)
               else Inr dzero))"

text \<open>The constant \<open>pi\<close> of the program is the double \<open>3.141592653589793\<close>.\<close>

definition pi_double :: double where
  "pi_double = Double 884279719003555 (- 48)"

definition pv_double :: "double \<Rightarrow> error + double" where
  "pv_double x =
     (case float_rem (dadd x pi_double) (dmul (Double 2 0) pi_double) of
        Inl e \<Rightarrow> Inl e
      | Inr r \<Rightarrow> Inr (dsub r pi_double))"

text \<open>
  The object with doubles in its fields, and the three methods that do no trigonometry.
\<close>

record pendulum_double =
  double_l :: double
  double_m :: double
  double_mc :: double
  double_dt :: double
  double_O :: double
  double_w :: double
  double_x :: double
  double_v :: double

definition init_double :: "double \<Rightarrow> double \<Rightarrow> double \<Rightarrow> double \<Rightarrow> pendulum_double" where
  "init_double l m mc dt =
     \<lparr>double_l = l, double_m = m, double_mc = mc, double_dt = dt,
      double_O = dzero, double_w = dzero, double_x = dzero, double_v = dzero\<rparr>"

definition set_state_double ::
  "pendulum_double \<Rightarrow> double \<Rightarrow> double \<Rightarrow> double \<Rightarrow> double \<Rightarrow> error + pendulum_double" where
  "set_state_double self O' w x v =
     (case pv_double O' of Inl e \<Rightarrow> Inl e
      | Inr a \<Rightarrow>
         (let self = self\<lparr>double_O := a\<rparr>;
              self = self\<lparr>double_w := w\<rparr>;
              self = self\<lparr>double_x := x\<rparr>;
              self = self\<lparr>double_v := v\<rparr>
          in Inr self))"

definition get_state_double ::
  "pendulum_double \<Rightarrow> pendulum_double \<times> double \<times> double \<times> double \<times> double" where
  "get_state_double self =
     (self, (double_O self, double_w self, double_x self, double_v self))"

subsection \<open>The controller assembly\<close>

text \<open>
  The membership functions come from \<open>flat_saw\<close> of the module \<open>mf\<close>, which is not
  among the sources: it is a parameter of the assembly, called with an interval and a
  count and returning a list of descriptors of any type \<open>'mf\<close>.
\<close>

type_synonym 'mf partitioner = "real \<times> real \<Rightarrow> nat \<Rightarrow> 'mf list"

datatype 'mf adjective = Adjective 'mf

datatype fuzzify = Plain

datatype defuzzify = Defuzzy

datatype variable_kind = InputVariable fuzzify | OutputVariable defuzzify

record 'mf variable =
  kind :: variable_kind
  adjectives :: "string \<rightharpoonup> 'mf adjective"

type_synonym 'mf rule_table =
  "'mf adjective list \<times> 'mf adjective list \<times> 'mf adjective list list"

record 'mf controller =
  variables :: "string \<rightharpoonup> 'mf variable"
  tables :: "'mf rule_table list"

text \<open>
  Modelled from the spec: the constructor of the class \<open>PendulumController\<close> of the module
  \<open>control\<close>, which is not among the sources. The inference engine holds named variables
  and the rule tables registered with it; a new one holds none.
\<close>

definition PendulumController :: "'mf controller" where
  "PendulumController = \<lparr>variables = Map.empty, tables = []\<rparr>"

text \<open>
  Modelled from the spec: the method \<open>defuzzy\<close> of \<open>PendulumController\<close>, which gives the
  defuzzification method of the output variable.
\<close>

definition defuzzy :: "'mf controller \<Rightarrow> defuzzify" where
  "defuzzy controller = Defuzzy"

text \<open>
  Modelled from the spec: the method \<open>add_table\<close> of \<open>PendulumController\<close>. It registers
  a table given as the row categories, the column categories and the grid of output
  categories; a grid that has not one cell for every pair of a row and a column is a
  construction error.
\<close>

definition add_table ::
  "'mf controller \<Rightarrow> 'mf adjective list \<Rightarrow> 'mf adjective list \<Rightarrow> 'mf adjective list list
     \<Rightarrow> error + 'mf controller" where
  "add_table controller rows cols grid =
     (if length grid = length rows \<and> list_all (\<lambda>row. length row = length cols) grid
      then Inr (controller\<lparr>tables := tables controller @ [(rows, cols, grid)]\<rparr>)
      else Inl MalformedTable)"

text \<open>Subscription \<open>d[k]\<close> of a dictionary raises \<open>KeyError\<close> on a missing key.\<close>

definition getitem :: "('k \<rightharpoonup> 'v) \<Rightarrow> 'k \<Rightarrow> error + 'v" where
  "getitem d k = (case d k of None \<Rightarrow> Inl KeyError | Some v \<Rightarrow> Inr v)"

text \<open>A list comprehension \<open>[f(name) for name in names]\<close> stops at the first error.\<close>

fun comprehension :: "('a \<Rightarrow> error + 'b) \<Rightarrow> 'a list \<Rightarrow> error + 'b list" where
  "comprehension f [] = Inr []"
| "comprehension f (name # names) =
     (case f name of Inl e \<Rightarrow> Inl e
      | Inr y \<Rightarrow> (case comprehension f names of Inl e \<Rightarrow> Inl e | Inr ys \<Rightarrow> Inr (y # ys)))"

text \<open>
  The dictionary comprehension \<open>{name: Adjective(mf) for name, mf in zip(names, mfs)}\<close>:
  \<open>zip\<close> stops at the shorter list and a later pair overwrites an earlier one.
\<close>

definition make_adjectives :: "string list \<Rightarrow> 'mf list \<Rightarrow> (string \<rightharpoonup> 'mf adjective)" where
  "make_adjectives names mfs =
     fold (\<lambda>(name, mf) d. d(name \<mapsto> Adjective mf)) (zip names mfs) Map.empty"

text \<open>
  A variable is stored in \<open>controller.variables\<close> first and given its adjectives
  afterwards; the dictionary holds the same object, so the assignment shows there.
\<close>

definition set_adjectives ::
  "'mf controller \<Rightarrow> string \<Rightarrow> (string \<rightharpoonup> 'mf adjective) \<Rightarrow> 'mf controller" where
  "set_adjectives controller var adjs =
     controller\<lparr>variables := (\<lambda>k. if k = var
        then map_option (\<lambda>V. V\<lparr>adjectives := adjs\<rparr>) (variables controller k)
        else variables controller k)\<rparr>"

definition set_variable :: "'mf controller \<Rightarrow> string \<Rightarrow> 'mf variable \<Rightarrow> 'mf controller" where
  "set_variable controller var V = controller\<lparr>variables := (variables controller)(var \<mapsto> V)\<rparr>"

text \<open>The expression \<open>controller.variables[var].adjectives[name]\<close>.\<close>

definition adjective_of :: "'mf controller \<Rightarrow> string \<Rightarrow> string \<Rightarrow> error + 'mf adjective" where
  "adjective_of controller var name =
     (case getitem (variables controller) var of Inl e \<Rightarrow> Inl e
      | Inr V \<Rightarrow> getitem (adjectives V) name)"

definition O_names :: "string list" where
  "O_names = [''Ovbn'', ''Obn'', ''Osn'', ''Oz'', ''Osp'', ''Obp'', ''Ovbp'']"

definition w_names :: "string list" where
  "w_names = [''wbn'', ''wsn'', ''wz'', ''wsp'', ''wbp'']"

definition F_names :: "string list" where
  "F_names = [''Fvvbn'', ''Fvbn'', ''Fbn'', ''Fsn'', ''Fz'', ''Fsp'', ''Fbp'', ''Fvbp'', ''Fvvbp'']"

definition x_names :: "string list" where
  "x_names = [''xn'', ''xz'', ''xp'']"

definition v_names :: "string list" where
  "v_names = [''vn'', ''vz'', ''vp'']"

text \<open>The two values of the local \<open>table_names\<close>, in the order of the assignments.\<close>

definition table_names_1 :: "string list list" where
  "table_names_1 =
     [[''Fvvbn'', ''Fvvbn'', ''Fvbn'', ''Fbn'', ''Fsn''],
      [''Fvvbn'', ''Fvbn'', ''Fbn'', ''Fsn'', ''Fz''],
      [''Fvbn'', ''Fbn'', ''Fsn'', ''Fz'', ''Fsp''],
      [''Fbn'', ''Fsn'', ''Fz'', ''Fsp'', ''Fbp''],
      [''Fsn'', ''Fz'', ''Fsp'', ''Fbp'', ''Fvbp''],
      [''Fz'', ''Fsp'', ''Fbp'', ''Fvbp'', ''Fvvbp''],
      [''Fsp'', ''Fbp'', ''Fvbp'', ''Fvvbp'', ''Fvvbp'']]"

definition table_names_2 :: "string list list" where
  "table_names_2 =
     [[''Fbp'', ''Fbp'', ''Fz''],
      [''Fbp'', ''Fz'', ''Fbn''],
      [''Fz'', ''Fbn'', ''Fbn'']]"

text \<open>The right-hand sides of the five assignments to \<open>adjectives\<close>.\<close>

definition O_adjectives :: "'mf partitioner \<Rightarrow> (string \<rightharpoonup> 'mf adjective)" where
  "O_adjectives flat_saw = make_adjectives O_names (flat_saw (- 3 * pi / 8, 3 * pi / 8) 7)"

definition w_adjectives :: "'mf partitioner \<Rightarrow> (string \<rightharpoonup> 'mf adjective)" where
  "w_adjectives flat_saw = make_adjectives w_names (flat_saw (- 3 * pi, 3 * pi) 5)"

definition F_adjectives :: "'mf partitioner \<Rightarrow> (string \<rightharpoonup> 'mf adjective)" where
  "F_adjectives flat_saw = make_adjectives F_names (flat_saw (- 100, 100) 9)"

definition x_adjectives :: "'mf partitioner \<Rightarrow> (string \<rightharpoonup> 'mf adjective)" where
  "x_adjectives flat_saw = make_adjectives x_names (flat_saw (- 10, 10) 3)"

definition v_adjectives :: "'mf partitioner \<Rightarrow> (string \<rightharpoonup> 'mf adjective)" where
  "v_adjectives flat_saw = make_adjectives v_names (flat_saw (- 6, 6) 3)"

text \<open>
  The body of \<open>create_controller\<close>, statement by statement. It ends with the controller
  and with the local \<open>table_names\<close>, which holds the second table; the call of
  \<open>add_table\<close> for that table is a comment in the source and is no part of the body.
\<close>

record 'mf locals =
  local_controller :: "'mf controller"
  local_table_names :: "string list list"

definition create_controller_body :: "'mf partitioner \<Rightarrow> unit \<Rightarrow> error + 'mf locals" where
  "create_controller_body flat_saw u =
     (let controller = PendulumController;
          controller = set_variable controller ''O'' \<lparr>kind = InputVariable Plain, adjectives = Map.empty\<rparr>;
          controller = set_adjectives controller ''O'' (O_adjectives flat_saw);
          controller = set_variable controller ''w'' \<lparr>kind = InputVariable Plain, adjectives = Map.empty\<rparr>;
          controller = set_adjectives controller ''w'' (w_adjectives flat_saw);
          controller = set_variable controller ''F'' \<lparr>kind = OutputVariable (defuzzy controller), adjectives = Map.empty\<rparr>;
          controller = set_adjectives controller ''F'' (F_adjectives flat_saw);
          table_names = table_names_1
      in case comprehension (adjective_of controller ''O'') O_names of Inl e \<Rightarrow> Inl e | Inr rows \<Rightarrow>
        (case comprehension (adjective_of controller ''w'') w_names of Inl e \<Rightarrow> Inl e | Inr cols \<Rightarrow>
        (case comprehension (comprehension (adjective_of controller ''F'')) table_names
           of Inl e \<Rightarrow> Inl e | Inr grid \<Rightarrow>
        (case add_table controller rows cols grid of Inl e \<Rightarrow> Inl e | Inr controller \<Rightarrow>
        (let controller = set_variable controller ''x'' \<lparr>kind = InputVariable Plain, adjectives = Map.empty\<rparr>;
             controller = set_adjectives controller ''x'' (x_adjectives flat_saw);
             controller = set_variable controller ''v'' \<lparr>kind = InputVariable Plain, adjectives = Map.empty\<rparr>;
             controller = set_adjectives controller ''v'' (v_adjectives flat_saw);
             table_names = table_names_2
         in Inr \<lparr>local_controller = controller, local_table_names = table_names\<rparr>)))))"

definition create_controller :: "'mf partitioner \<Rightarrow> unit \<Rightarrow> error + 'mf controller" where
  "create_controller flat_saw u =
     (case create_controller_body flat_saw u of Inl e \<Rightarrow> Inl e | Inr L \<Rightarrow> Inr (local_controller L))"

text \<open>
  Reading a table by category names: line \<open>i\<close> of the grid belongs to the \<open>i\<close>-th row
  name and column \<open>j\<close> to the \<open>j\<close>-th column name, as the lists handed to \<open>add_table\<close>
  are built from the name lists in that order.
\<close>

fun index_of :: "'a list \<Rightarrow> 'a \<Rightarrow> nat option" where
  "index_of [] y = None"
| "index_of (x # xs) y = (if x = y then Some 0 else map_option Suc (index_of xs y))"

definition table_lookup :: "'a list \<Rightarrow> 'b list \<Rightarrow> 'c list list \<Rightarrow> 'a \<Rightarrow> 'b \<Rightarrow> 'c option" where
  "table_lookup row_names col_names grid r c =
     (case index_of row_names r of None \<Rightarrow> None
      | Some i \<Rightarrow> (case index_of col_names c of None \<Rightarrow> None
        | Some j \<Rightarrow> if i < length grid \<and> j < length (grid ! i) then Some (grid ! i ! j) else None))"

text \<open>The partitioner returns as many descriptors as it is asked for.\<close>

definition partitions :: "'mf partitioner \<Rightarrow> bool" where
  "partitions flat_saw = (\<forall>r n. length (flat_saw r n) = n)"

text \<open>A table over the cart position and cart velocity categories is registered.\<close>

definition cart_table_registered :: "'mf controller \<Rightarrow> bool" where
  "cart_table_registered c =
     list_ex (\<lambda>(rows, cols, grid).
        comprehension (adjective_of c ''x'') x_names = Inr rows
        \<and> comprehension (adjective_of c ''v'') v_names = Inr cols) (tables c)"

text \<open>
  Modelled from the spec: \<open>flat_saw\<close> of the module \<open>mf\<close>, which is not among the sources.
  Called with an interval and a count \<open>n\<close> it returns \<open>n\<close> descriptors in low-to-high
  order; a descriptor is recorded here as the interval, the count and its position.
\<close>

definition flat_saw_descriptors :: "(real \<times> real \<times> nat \<times> nat) partitioner" where
  "flat_saw_descriptors r n = map (\<lambda>i. (fst r, snd r, n, i)) [0..<n]"

text \<open>The three arguments of the call of \<open>add_table\<close>, once the lookups have succeeded.\<close>

definition primary_table :: "'mf partitioner \<Rightarrow> 'mf rule_table" where
  "primary_table flat_saw =
     (map (\<lambda>n. the (O_adjectives flat_saw n)) O_names,
      map (\<lambda>n. the (w_adjectives flat_saw n)) w_names,
      map (map (\<lambda>n. the (F_adjectives flat_saw n))) table_names_1)"

text \<open>
  A variable binds the names, one to one and in order, to the descriptors that the
  partitioner returns for the interval and the count.
\<close>

definition bound_in_order ::
  "'mf partitioner \<Rightarrow> 'mf variable \<Rightarrow> real \<times> real \<Rightarrow> nat \<Rightarrow> string list \<Rightarrow> bool" where
  "bound_in_order flat_saw V r n names =
     (length names = n \<and> distinct names \<and> dom (adjectives V) = set names
      \<and> list_all (\<lambda>i. adjectives V (names ! i) = Some (Adjective (flat_saw r n ! i))) [0..<n])"

section \<open>Properties of the dynamics model\<close>

subsection \<open>One step\<close>

lemma apply_F_unfold:
  "apply_F self F =
     (if degenerate self then Inl NonFinite
      else (case spec_step self F of (\<theta>', \<omega>', x', v') \<Rightarrow>
              Inr (self\<lparr>self_O := \<theta>', self_w := \<omega>', self_x := x', self_v := v'\<rparr>,
                   (\<theta>', \<omega>', x', v'))))"
proof (cases "self_m self + self_mc self = 0")
  case True
  then show ?thesis by (simp add: apply_F_def degenerate_def fdiv_def Let_def)
next
  case M: False
  show ?thesis
  proof (cases "self_l self * (4 / 3 - self_m self * (cos (self_O self))\<^sup>2
                  / (self_m self + self_mc self)) = 0")
    case True
    then show ?thesis using M
      by (simp add: apply_F_def degenerate_def fdiv_def Let_def power2_eq_square mult.assoc)
  next
    case False
    then show ?thesis using M
      by (simp add: apply_F_def degenerate_def fdiv_def Let_def get_state_def spec_step_def
          spec_q_def spec_a_def power2_eq_square mult.assoc)
  qed
qed

text \<open>
  Claim C1. For every object and every force \<open>F\<close>, \<open>apply\<close> computes the angular
  acceleration \<open>q\<close> and the linear acceleration \<open>a\<close> of the specification's formulas
  (\<open>g = 9.80665\<close>, \<open>M = m + mc\<close>), updates \<open>\<omega>\<close> first, advances the angle with the new
  \<open>\<omega>\<close> through \<open>pv\<close>, updates \<open>v\<close>, advances the position with the new \<open>v\<close>, leaves the
  parameters alone and returns the new state tuple. Where a divisor of the formulas is
  zero the floats of the result are not finite.
\<close>

theorem apply_F_spec_step:
  "apply_F self F =
     (if degenerate self then Inl NonFinite
      else (case spec_step self F of (\<theta>', \<omega>', x', v') \<Rightarrow>
              Inr (self\<lparr>self_O := \<theta>', self_w := \<omega>', self_x := x', self_v := v'\<rparr>,
                   (\<theta>', \<omega>', x', v'))))"
  by (rule apply_F_unfold)

theorem apply_F_spec_step_witness:
  "apply_F (init (1 / 2) (1 / 10) (1 / 2) (1 / 100)) 0
     = Inr (init (1 / 2) (1 / 10) (1 / 2) (1 / 100), (0, 0, 0, 0))"
  using apply_F_spec_step [of "init (1 / 2) (1 / 10) (1 / 2) (1 / 100)" 0]
  by (simp add: degenerate_def spec_step_def spec_q_def spec_a_def init_def
      pv_def float_mod_def)

subsection \<open>Writing and reading the state\<close>

text \<open>
  Claim C7. After \<open>set_state(\<theta>, \<omega>, x, v)\<close>, \<open>get_state\<close> returns \<open>(pv \<theta>, \<omega>, x, v)\<close>: the
  angle is normalised on write, the other three components and the parameters are stored
  as given, the tuple has this fixed order, and \<open>get_state\<close> leaves the object as it was.
\<close>

theorem set_state_then_get_state:
  "get_state (set_state self \<theta> \<omega> x v) = (set_state self \<theta> \<omega> x v, (pv \<theta>, \<omega>, x, v))
   \<and> set_state self \<theta> \<omega> x v = self\<lparr>self_O := pv \<theta>, self_w := \<omega>, self_x := x, self_v := v\<rparr>
   \<and> fst (get_state self) = self
   \<and> snd (get_state self) = (self_O self, self_w self, self_x self, self_v self)"
  by (simp add: get_state_def set_state_def)

subsection \<open>The upright equilibrium\<close>

lemma equilibrium_step:
  "\<not> degenerate (init l m mc dt) \<Longrightarrow>
   apply_F (init l m mc dt) 0 = Inr (init l m mc dt, (0, 0, 0, 0))"
  by (simp add: apply_F_unfold spec_step_def spec_q_def spec_a_def init_def
      pv_def float_mod_def)

text \<open>
  Claim C5. From the state \<open>(0, 0, 0, 0)\<close>, applying the force \<open>0\<close> any number of times
  leaves the state exactly \<open>(0, 0, 0, 0)\<close>. The parameters are those for which the step
  divides by no zero at the upright angle: \<open>m + mc \<noteq> 0\<close> and \<open>l * (4/3 - m / (m + mc)) \<noteq> 0\<close>.
\<close>

theorem equilibrium_fixed_point:
  assumes "\<not> degenerate (init l m mc dt)"
  shows "get_state (init l m mc dt) = (init l m mc dt, (0, 0, 0, 0))
     \<and> apply_F (init l m mc dt) 0 = Inr (init l m mc dt, (0, 0, 0, 0))
     \<and> run (init l m mc dt) (replicate n (Apply 0)) = Inr (init l m mc dt)"
proof -
  have "run (init l m mc dt) (replicate n (Apply 0)) = Inr (init l m mc dt)"
    by (induction n) (simp_all add: equilibrium_step [OF assms])
  then show ?thesis
    using equilibrium_step [OF assms] by (simp add: get_state_def init_def)
qed

theorem equilibrium_fixed_point_witness:
  "\<not> degenerate (init (1 / 2) (1 / 10) (1 / 2) (1 / 100))
   \<and> run (init (1 / 2) (1 / 10) (1 / 2) (1 / 100)) [Apply 0, Apply 0, Apply 0]
     = Inr (init (1 / 2) (1 / 10) (1 / 2) (1 / 100))"
proof -
  have nd: "\<not> degenerate (init (1 / 2) (1 / 10) (1 / 2) (1 / 100))"
    by (simp add: degenerate_def init_def)
  have three: "replicate 3 (Apply 0) = [Apply 0, Apply 0, Apply 0]"
    by (simp add: numeral_3_eq_3)
  show ?thesis
    using nd equilibrium_fixed_point [OF nd, of 3] by (simp only: three simp_thms)
qed

subsection \<open>The step from the negated state\<close>

lemma degenerate_negate: "degenerate (negate self) = degenerate self"
  by (simp add: degenerate_def negate_def)

lemma spec_q_negate: "spec_q l m mc (- \<theta>) (- \<omega>) (- F) = - spec_q l m mc \<theta> \<omega> F"
  by (simp add: spec_q_def divide_simps) (simp add: algebra_simps)

lemma spec_a_negate: "spec_a l m mc (- \<theta>) (- \<omega>) (- F) = - spec_a l m mc \<theta> \<omega> F"
  by (simp add: spec_a_def spec_q_negate divide_simps) (simp add: algebra_simps)

lemma negate_fields:
  "self_l (negate self) = self_l self" "self_m (negate self) = self_m self"
  "self_mc (negate self) = self_mc self" "self_dt (negate self) = self_dt self"
  "self_O (negate self) = - self_O self" "self_w (negate self) = - self_w self"
  "self_x (negate self) = - self_x self" "self_v (negate self) = - self_v self"
  by (simp_all add: negate_def)

lemma spec_step_angle:
  "spec_step self F = (\<theta>1, \<omega>1, x1, v1) \<Longrightarrow> \<theta>1 = pv (self_O self + \<omega>1 * self_dt self)"
  by (auto simp: spec_step_def Let_def)

lemma spec_step_negated:
  assumes "spec_step self F = (\<theta>1, \<omega>1, x1, v1)"
  shows "spec_step (negate self) (- F)
           = (pv (- (self_O self + \<omega>1 * self_dt self)), - \<omega>1, - x1, - v1)"
  using assms
  unfolding spec_step_def Let_def negate_fields spec_q_negate spec_a_negate
  by (auto simp: algebra_simps)

text \<open>
  Claim C6, amended. A step from the negated state \<open>(-\<theta>, -\<omega>, -x, -v)\<close> with the force
  \<open>-F\<close> returns real numbers exactly when the step from \<open>(\<theta>, \<omega>, x, v)\<close> with \<open>F\<close> does,
  and then its new \<open>\<omega>\<close>, \<open>x\<close> and \<open>v\<close> are the exact negations. The two new angles are
  \<open>pv y\<close> and \<open>pv (-y)\<close> for the same \<open>y = \<theta> + \<omega>_new * dt\<close>; nothing is said of how \<open>pv\<close>
  relates the two.
\<close>

theorem apply_F_negated_step:
  "((\<exists>e. apply_F (negate self) (- F) = Inl e) \<longleftrightarrow> (\<exists>e. apply_F self F = Inl e))
   \<and> (apply_F self F = Inr (s1, (\<theta>1, \<omega>1, x1, v1)) \<longrightarrow>
        \<theta>1 = pv (self_O self + \<omega>1 * self_dt self)
        \<and> apply_F (negate self) (- F)
            = Inr (self\<lparr>self_O := pv (- (self_O self + \<omega>1 * self_dt self)),
                         self_w := - \<omega>1, self_x := - x1, self_v := - v1\<rparr>,
                   (pv (- (self_O self + \<omega>1 * self_dt self)), - \<omega>1, - x1, - v1)))"
proof -
  have fail: "(\<exists>e. apply_F (negate self) (- F) = Inl e) \<longleftrightarrow> (\<exists>e. apply_F self F = Inl e)"
    by (simp add: apply_F_unfold degenerate_negate split: prod.splits)
  have ok: "\<theta>1 = pv (self_O self + \<omega>1 * self_dt self)
        \<and> apply_F (negate self) (- F)
            = Inr (self\<lparr>self_O := pv (- (self_O self + \<omega>1 * self_dt self)),
                         self_w := - \<omega>1, self_x := - x1, self_v := - v1\<rparr>,
                   (pv (- (self_O self + \<omega>1 * self_dt self)), - \<omega>1, - x1, - v1))"
    if "apply_F self F = Inr (s1, (\<theta>1, \<omega>1, x1, v1))"
  proof -
    from that have nd: "\<not> degenerate self" and st: "spec_step self F = (\<theta>1, \<omega>1, x1, v1)"
      by (auto simp: apply_F_unfold split: if_splits prod.splits)
    have same: "(negate self)\<lparr>self_O := a, self_w := b, self_x := c, self_v := d\<rparr>
                  = self\<lparr>self_O := a, self_w := b, self_x := c, self_v := d\<rparr>" for a b c d
      by (simp add: negate_def)
    have "apply_F (negate self) (- F)
            = Inr ((negate self)\<lparr>self_O := pv (- (self_O self + \<omega>1 * self_dt self)),
                                  self_w := - \<omega>1, self_x := - x1, self_v := - v1\<rparr>,
                   (pv (- (self_O self + \<omega>1 * self_dt self)), - \<omega>1, - x1, - v1))"
      by (simp add: apply_F_unfold degenerate_negate nd spec_step_negated [OF st])
    then show ?thesis
      using spec_step_angle [OF st] by (simp only: same simp_thms)
  qed
  show ?thesis using fail ok by blast
qed

theorem apply_F_negated_step_witness:
  "apply_F (set_state (init (1 / 2) (1 / 10) (1 / 2) 1) 0 1 0 0) 0
     = Inr (\<lparr>self_l = 1 / 2, self_m = 1 / 10, self_mc = 1 / 2, self_dt = 1,
             self_O = pv 1, self_w = 1, self_x = 0, self_v = 0\<rparr>, (pv 1, 1, 0, 0))
   \<and> apply_F (negate (set_state (init (1 / 2) (1 / 10) (1 / 2) 1) 0 1 0 0)) (- 0)
     = Inr (\<lparr>self_l = 1 / 2, self_m = 1 / 10, self_mc = 1 / 2, self_dt = 1,
             self_O = pv (- 1), self_w = - 1, self_x = 0, self_v = 0\<rparr>, (pv (- 1), - 1, 0, 0))"
proof -
  have zero: "pv 0 = 0" by (simp add: pv_def float_mod_def)
  have start: "set_state (init (1 / 2) (1 / 10) (1 / 2) 1) 0 1 0 0
     = \<lparr>self_l = 1 / 2, self_m = 1 / 10, self_mc = 1 / 2, self_dt = 1,
        self_O = 0, self_w = 1, self_x = 0, self_v = 0\<rparr>"
    by (simp add: set_state_def init_def zero)
  have step: "apply_F (set_state (init (1 / 2) (1 / 10) (1 / 2) 1) 0 1 0 0) 0
     = Inr (\<lparr>self_l = 1 / 2, self_m = 1 / 10, self_mc = 1 / 2, self_dt = 1,
             self_O = pv 1, self_w = 1, self_x = 0, self_v = 0\<rparr>, (pv 1, 1, 0, 0))"
    by (simp add: start apply_F_def fdiv_def Let_def get_state_def)
  from apply_F_negated_step [of "set_state (init (1 / 2) (1 / 10) (1 / 2) 1) 0 1 0 0" 0
        "\<lparr>self_l = 1 / 2, self_m = 1 / 10, self_mc = 1 / 2, self_dt = 1,
             self_O = pv 1, self_w = 1, self_x = 0, self_v = 0\<rparr>" "pv 1" 1 0 0] step
  have "apply_F (negate (set_state (init (1 / 2) (1 / 10) (1 / 2) 1) 0 1 0 0)) (- 0)
     = Inr (\<lparr>self_l = 1 / 2, self_m = 1 / 10, self_mc = 1 / 2, self_dt = 1,
             self_O = pv (- 1), self_w = - 1, self_x = 0, self_v = 0\<rparr>, (pv (- 1), - 1, 0, 0))"
    by (simp add: start)
  with step show ?thesis by (rule conjI)
qed

text \<open>
  Claim C6 as stated fails: with \<open>l = 0.5\<close>, \<open>m = 0.1\<close>, \<open>mc = 0.5\<close> and \<open>dt = 1\<close>, from
  \<open>(0, \<pi>, 0, 0)\<close> and from its mirror image \<open>(0, -\<pi>, 0, 0)\<close>, both with the force \<open>0\<close>,
  the new angle is \<open>-\<pi>\<close> in both, and \<open>-\<pi>\<close> is not the negation of \<open>-\<pi>\<close>.
\<close>

theorem apply_F_odd_symmetry_counterexample:
  "apply_F (set_state (init (1 / 2) (1 / 10) (1 / 2) 1) 0 pi 0 0) 0
     = Inr (\<lparr>self_l = 1 / 2, self_m = 1 / 10, self_mc = 1 / 2, self_dt = 1,
             self_O = - pi, self_w = pi, self_x = 0, self_v = 0\<rparr>,
            (- pi, pi, 0, 0))
   \<and> apply_F (set_state (init (1 / 2) (1 / 10) (1 / 2) 1) (- 0) (- pi) (- 0) (- 0)) (- 0)
     = Inr (\<lparr>self_l = 1 / 2, self_m = 1 / 10, self_mc = 1 / 2, self_dt = 1,
             self_O = - pi, self_w = - pi, self_x = 0, self_v = 0\<rparr>,
            (- pi, - pi, 0, 0))
   \<and> (- pi, - pi, 0, 0) \<noteq> (- (- pi), - pi, - 0, - (0::real))"
  by (simp add: apply_F_def fdiv_def Let_def get_state_def set_state_def init_def
        pv_def float_mod_def)

subsection \<open>The angle normalisation in double precision\<close>

text \<open>
  The doubles of the statements below: \<open>Double 884279719003555 (-48)\<close> is the program's
  \<open>pi\<close>, \<open>3.141592653589793\<close>; \<open>Double (-7074237752028441) (-51)\<close> is the next double
  below \<open>-pi\<close>, \<open>-3.1415926535897936\<close>; \<open>Double 1 (-1)\<close>, \<open>Double 3602879701896397 (-55)\<close>
  and \<open>Double 5764607523034235 (-59)\<close> are the default parameters \<open>0.5\<close>, \<open>0.1\<close> and
  \<open>0.01\<close>.
\<close>

lemma pv_double_below_minus_pi: "pv_double (Double (- 7074237752028441) (- 51)) = Inr pi_double"
  by code_simp

lemma pv_double_pi: "pv_double pi_double = Inr (Double (- 884279719003555) (- 48))"
  by code_simp

lemma pi_double_not_less: "\<not> dless pi_double pi_double"
  by code_simp

text \<open>
  Claim C2 fails in the code. At the double next below \<open>-pi\<close> the sum \<open>x + pi\<close> is
  \<open>-2^-51\<close>, the remainder \<open>-2^-51 + 2 * pi\<close> rounds to \<open>2 * pi\<close> itself, and \<open>__pv\<close>
  returns \<open>pi\<close>, which is not below \<open>pi\<close>. At \<open>pi\<close>, \<open>-pi\<close> and \<open>0\<close> it returns \<open>-pi\<close>,
  \<open>-pi\<close> and \<open>0\<close>, as the claim says.
\<close>

theorem pv_double_returns_pi:
  "dadd (Double (- 7074237752028441) (- 51)) pi_double = Double (- 1) (- 51)
   \<and> float_rem (Double (- 1) (- 51)) (dmul (Double 2 0) pi_double)
       = Inr (dmul (Double 2 0) pi_double)
   \<and> pv_double (Double (- 7074237752028441) (- 51)) = Inr pi_double
   \<and> \<not> dless pi_double pi_double
   \<and> pv_double pi_double = Inr (Double (- 884279719003555) (- 48))
   \<and> pv_double (Double (- 884279719003555) (- 48)) = Inr (Double (- 884279719003555) (- 48))
   \<and> pv_double dzero = Inr dzero"
  by code_simp

text \<open>
  Claim C3 fails in the code, by the same rounding in \<open>__pv\<close>. A new object with the
  default parameters, after \<open>set_state(-3.1415926535897936, 0, 0, 0)\<close>, stores the angle
  \<open>pi\<close>, which is not below \<open>pi\<close>.
\<close>

theorem set_state_double_stores_pi:
  "set_state_double
     (init_double (Double 1 (- 1)) (Double 3602879701896397 (- 55)) (Double 1 (- 1))
        (Double 5764607523034235 (- 59)))
     (Double (- 7074237752028441) (- 51)) dzero dzero dzero
   = Inr \<lparr>double_l = Double 1 (- 1), double_m = Double 3602879701896397 (- 55),
          double_mc = Double 1 (- 1), double_dt = Double 5764607523034235 (- 59),
          double_O = pi_double, double_w = dzero, double_x = dzero, double_v = dzero\<rparr>
   \<and> \<not> dless pi_double pi_double"
  by (simp add: set_state_double_def init_double_def pv_double_below_minus_pi
      pi_double_not_less)

text \<open>
  Claim C10 fails in the code, by the same rounding in \<open>__pv\<close>. In the state of the
  object above, \<open>get_state\<close> returns the angle \<open>pi\<close>, and \<open>set_state\<close> of the tuple read
  stores the angle \<open>-pi\<close>: the state has changed, and \<open>__pv\<close> is not idempotent at
  \<open>-3.1415926535897936\<close>.
\<close>

theorem set_state_get_state_double_changes_angle:
  "get_state_double
     \<lparr>double_l = Double 1 (- 1), double_m = Double 3602879701896397 (- 55),
      double_mc = Double 1 (- 1), double_dt = Double 5764607523034235 (- 59),
      double_O = pi_double, double_w = dzero, double_x = dzero, double_v = dzero\<rparr>
   = (\<lparr>double_l = Double 1 (- 1), double_m = Double 3602879701896397 (- 55),
       double_mc = Double 1 (- 1), double_dt = Double 5764607523034235 (- 59),
       double_O = pi_double, double_w = dzero, double_x = dzero, double_v = dzero\<rparr>,
      (pi_double, dzero, dzero, dzero))
   \<and> set_state_double
       \<lparr>double_l = Double 1 (- 1), double_m = Double 3602879701896397 (- 55),
        double_mc = Double 1 (- 1), double_dt = Double 5764607523034235 (- 59),
        double_O = pi_double, double_w = dzero, double_x = dzero, double_v = dzero\<rparr>
       pi_double dzero dzero dzero
     = Inr \<lparr>double_l = Double 1 (- 1), double_m = Double 3602879701896397 (- 55),
            double_mc = Double 1 (- 1), double_dt = Double 5764607523034235 (- 59),
            double_O = Double (- 884279719003555) (- 48), double_w = dzero,
            double_x = dzero, double_v = dzero\<rparr>
   \<and> Double (- 884279719003555) (- 48) \<noteq> pi_double
   \<and> pv_double (Double (- 7074237752028441) (- 51)) = Inr pi_double
   \<and> pv_double pi_double \<noteq> Inr pi_double"
proof -
  have differ: "Double (- 884279719003555) (- 48) \<noteq> pi_double"
    by (simp add: pi_double_def)
  show ?thesis
    using differ
    by (simp add: get_state_double_def set_state_double_def pv_double_pi
        pv_double_below_minus_pi)
qed

section \<open>Properties of the controller assembly\<close>

lemma fold_adjectives:
  "fold (\<lambda>(name, mf) d. d(name \<mapsto> Adjective mf)) kvs d k =
     (case map_of (rev kvs) k of None \<Rightarrow> d k | Some mf \<Rightarrow> Some (Adjective mf))"
  by (induction kvs arbitrary: d) (auto simp: map_add_def split: option.splits)

lemma make_adjectives_nth:
  assumes "distinct names" "length mfs = length names" "i < length names"
  shows "make_adjectives names mfs (names ! i) = Some (Adjective (mfs ! i))"
proof -
  have d: "distinct (map fst (zip names mfs))" using assms by simp
  have "distinct (map fst (rev (zip names mfs)))"
    using d by (simp only: rev_map [symmetric] distinct_rev)
  then have "map_of (rev (zip names mfs)) = map_of (zip names mfs)"
    using d by (simp only: map_of_inject_set set_rev)
  then have "map_of (rev (zip names mfs)) (names ! i) = map_of (zip names mfs) (names ! i)"
    by simp
  also have "\<dots> = Some (mfs ! i)" using assms by (simp add: map_of_zip_nth)
  finally show ?thesis by (simp add: make_adjectives_def fold_adjectives)
qed

lemma make_adjectives_dom:
  assumes "length mfs = length names"
  shows "dom (make_adjectives names mfs) = set names"
proof -
  have "dom (make_adjectives names mfs) = dom (map_of (rev (zip names mfs)))"
    by (auto simp: make_adjectives_def fold_adjectives split: option.splits)
  also have "\<dots> = set names"
    using assms by (simp add: dom_map_of_conv_image_fst flip: set_map)
  finally show ?thesis .
qed

lemma comprehension_map:
  "(\<And>n. n \<in> set ns \<Longrightarrow> f n = Inr (g n)) \<Longrightarrow> comprehension f ns = Inr (map g ns)"
  by (induction ns) auto

lemma adjective_of_eval:
  "variables c var = Some V \<Longrightarrow> n \<in> dom (adjectives V)
     \<Longrightarrow> adjective_of c var n = Inr (the (adjectives V n))"
  by (auto simp: adjective_of_def getitem_def)

lemma adjectives_dom:
  assumes "partitions flat_saw"
  shows "dom (O_adjectives flat_saw) = set O_names" "dom (w_adjectives flat_saw) = set w_names"
    "dom (F_adjectives flat_saw) = set F_names" "dom (x_adjectives flat_saw) = set x_names"
    "dom (v_adjectives flat_saw) = set v_names"
  using assms
  by (simp_all add: partitions_def O_adjectives_def w_adjectives_def F_adjectives_def
      x_adjectives_def v_adjectives_def make_adjectives_dom O_names_def w_names_def
      F_names_def x_names_def v_names_def)

lemma table_names_1_F: "list_all (list_all (\<lambda>n. n \<in> set F_names)) table_names_1"
  by (simp add: table_names_1_def F_names_def)

lemma table_names_2_F: "list_all (list_all (\<lambda>n. n \<in> set F_names)) table_names_2"
  by (simp add: table_names_2_def F_names_def)

lemma table_names_1_shape:
  "length table_names_1 = 7" "list_all (\<lambda>row. length row = 5) table_names_1"
  by (simp_all add: table_names_1_def)

lemma create_controller_body_eval:
  assumes "partitions flat_saw"
  shows "create_controller_body flat_saw u =
     Inr \<lparr>local_controller =
            \<lparr>variables =
               [''O'' \<mapsto> \<lparr>kind = InputVariable Plain, adjectives = O_adjectives flat_saw\<rparr>,
                ''w'' \<mapsto> \<lparr>kind = InputVariable Plain, adjectives = w_adjectives flat_saw\<rparr>,
                ''F'' \<mapsto> \<lparr>kind = OutputVariable Defuzzy, adjectives = F_adjectives flat_saw\<rparr>,
                ''x'' \<mapsto> \<lparr>kind = InputVariable Plain, adjectives = x_adjectives flat_saw\<rparr>,
                ''v'' \<mapsto> \<lparr>kind = InputVariable Plain, adjectives = v_adjectives flat_saw\<rparr>],
             tables = [primary_table flat_saw]\<rparr>,
          local_table_names = table_names_2\<rparr>"
proof -
  define c3 :: "'a controller" where "c3 =
     \<lparr>variables =
        [''O'' \<mapsto> \<lparr>kind = InputVariable Plain, adjectives = O_adjectives flat_saw\<rparr>,
         ''w'' \<mapsto> \<lparr>kind = InputVariable Plain, adjectives = w_adjectives flat_saw\<rparr>,
         ''F'' \<mapsto> \<lparr>kind = OutputVariable Defuzzy, adjectives = F_adjectives flat_saw\<rparr>],
      tables = []\<rparr>"
  have c3: "set_adjectives (set_variable (set_adjectives (set_variable (set_adjectives
              (set_variable PendulumController ''O'' \<lparr>kind = InputVariable Plain, adjectives = Map.empty\<rparr>)
              ''O'' (O_adjectives flat_saw))
              ''w'' \<lparr>kind = InputVariable Plain, adjectives = Map.empty\<rparr>)
              ''w'' (w_adjectives flat_saw))
              ''F'' \<lparr>kind = OutputVariable (defuzzy (set_adjectives (set_variable (set_adjectives
              (set_variable PendulumController ''O'' \<lparr>kind = InputVariable Plain, adjectives = Map.empty\<rparr>)
              ''O'' (O_adjectives flat_saw))
              ''w'' \<lparr>kind = InputVariable Plain, adjectives = Map.empty\<rparr>)
              ''w'' (w_adjectives flat_saw))), adjectives = Map.empty\<rparr>)
              ''F'' (F_adjectives flat_saw) = c3"
    by (simp add: c3_def set_variable_def set_adjectives_def PendulumController_def defuzzy_def
        fun_eq_iff)
  have aO: "adjective_of c3 ''O'' n = Inr (the (O_adjectives flat_saw n))" if "n \<in> set O_names" for n
    using that adjectives_dom(1) [OF assms]
    by (subst adjective_of_eval [where V = "the (variables c3 ''O'')"]) (simp_all add: c3_def)
  have aw: "adjective_of c3 ''w'' n = Inr (the (w_adjectives flat_saw n))" if "n \<in> set w_names" for n
    using that adjectives_dom(2) [OF assms]
    by (subst adjective_of_eval [where V = "the (variables c3 ''w'')"]) (simp_all add: c3_def)
  have aF: "adjective_of c3 ''F'' n = Inr (the (F_adjectives flat_saw n))" if "n \<in> set F_names" for n
    using that adjectives_dom(3) [OF assms]
    by (subst adjective_of_eval [where V = "the (variables c3 ''F'')"]) (simp_all add: c3_def)
  have rows: "comprehension (adjective_of c3 ''O'') O_names
                = Inr (map (\<lambda>n. the (O_adjectives flat_saw n)) O_names)"
    by (rule comprehension_map) (rule aO)
  have cols: "comprehension (adjective_of c3 ''w'') w_names
                = Inr (map (\<lambda>n. the (w_adjectives flat_saw n)) w_names)"
    by (rule comprehension_map) (rule aw)
  have row: "comprehension (adjective_of c3 ''F'') r = Inr (map (\<lambda>n. the (F_adjectives flat_saw n)) r)"
    if "r \<in> set table_names_1" for r
  proof (rule comprehension_map)
    fix n assume "n \<in> set r"
    with that table_names_1_F have "n \<in> set F_names" by (auto simp: list_all_iff)
    then show "adjective_of c3 ''F'' n = Inr (the (F_adjectives flat_saw n))" by (rule aF)
  qed
  have grid: "comprehension (comprehension (adjective_of c3 ''F'')) table_names_1
                = Inr (map (map (\<lambda>n. the (F_adjectives flat_saw n))) table_names_1)"
    by (rule comprehension_map) (rule row)
  have add: "add_table c3 (map (\<lambda>n. the (O_adjectives flat_saw n)) O_names)
               (map (\<lambda>n. the (w_adjectives flat_saw n)) w_names)
               (map (map (\<lambda>n. the (F_adjectives flat_saw n))) table_names_1)
             = Inr (c3\<lparr>tables := [primary_table flat_saw]\<rparr>)"
    using table_names_1_shape
    by (simp add: add_table_def primary_table_def c3_def O_names_def w_names_def list_all_iff)
  show ?thesis
    unfolding create_controller_body_def Let_def c3
    by (simp add: rows cols grid add)
      (simp add: c3_def set_variable_def set_adjectives_def fun_eq_iff)
qed

lemma create_controller_eval:
  assumes "partitions flat_saw"
  shows "create_controller flat_saw u =
     Inr \<lparr>variables =
               [''O'' \<mapsto> \<lparr>kind = InputVariable Plain, adjectives = O_adjectives flat_saw\<rparr>,
                ''w'' \<mapsto> \<lparr>kind = InputVariable Plain, adjectives = w_adjectives flat_saw\<rparr>,
                ''F'' \<mapsto> \<lparr>kind = OutputVariable Defuzzy, adjectives = F_adjectives flat_saw\<rparr>,
                ''x'' \<mapsto> \<lparr>kind = InputVariable Plain, adjectives = x_adjectives flat_saw\<rparr>,
                ''v'' \<mapsto> \<lparr>kind = InputVariable Plain, adjectives = v_adjectives flat_saw\<rparr>],
             tables = [primary_table flat_saw]\<rparr>"
  by (simp add: create_controller_def create_controller_body_eval [OF assms])

lemma table_lookup_map:
  "table_lookup rn cn (map (map g) t) r c = map_option g (table_lookup rn cn t r c)"
  by (auto simp: table_lookup_def split: option.splits)

lemma table_names_1_cells:
  "list_all (\<lambda>(on, wn). case table_lookup O_names w_names table_names_1 on wn of
       None \<Rightarrow> False | Some fn \<Rightarrow> fn \<in> set F_names) (List.product O_names w_names)"
  by code_simp

lemma table_names_1_corners:
  "table_lookup O_names w_names table_names_1 ''Ovbn'' ''wbn'' = Some ''Fvvbn''"
  "table_lookup O_names w_names table_names_1 ''Ovbp'' ''wbp'' = Some ''Fvvbp''"
  "table_lookup O_names w_names table_names_1 ''Oz'' ''wz'' = Some ''Fz''"
  by code_simp+

lemma names_shape:
  "length O_names = 7" "length w_names = 5" "length F_names = 9" "length x_names = 3"
  "length v_names = 3" "distinct O_names" "distinct w_names" "distinct F_names"
  "distinct x_names" "distinct v_names"
  by (simp_all add: O_names_def w_names_def F_names_def x_names_def v_names_def)

lemma bound_in_orderI:
  assumes "length (flat_saw r n) = n" "length names = n" "distinct names"
  shows "bound_in_order flat_saw \<lparr>kind = k, adjectives = make_adjectives names (flat_saw r n)\<rparr> r n names"
  using assms by (simp add: bound_in_order_def make_adjectives_dom make_adjectives_nth list_all_iff)

lemma partitions_descriptors: "partitions flat_saw_descriptors"
  by (simp add: partitions_def flat_saw_descriptors_def)

lemma primary_table_cells:
  assumes "partitions flat_saw" "(on, wn) \<in> set (List.product O_names w_names)"
  shows "\<exists>fn a. fn \<in> set F_names
           \<and> table_lookup O_names w_names table_names_1 on wn = Some fn
           \<and> F_adjectives flat_saw fn = Some a
           \<and> table_lookup O_names w_names
                (map (map (\<lambda>n. the (F_adjectives flat_saw n))) table_names_1) on wn = Some a"
proof -
  from assms(2) table_names_1_cells obtain fn where
    fn: "table_lookup O_names w_names table_names_1 on wn = Some fn" "fn \<in> set F_names"
    by (auto simp: list_all_iff split: option.splits)
  from fn(2) adjectives_dom(3) [OF assms(1)] obtain a where a: "F_adjectives flat_saw fn = Some a"
    by auto
  show ?thesis using fn a by (auto simp: table_lookup_map)
qed

text \<open>
  Claim C9. With such a partitioner the controller has exactly the five variables \<open>O\<close>,
  \<open>w\<close>, \<open>F\<close>, \<open>x\<close> and \<open>v\<close>; each binds its listed names, one to one and in the listed
  order, to the descriptors returned for its interval and count: 7 over
  \<open>[-3\<pi>/8, 3\<pi>/8]\<close>, 5 over \<open>[-3\<pi>, 3\<pi>]\<close>, 9 over \<open>[-100, 100]\<close>, 3 over \<open>[-10, 10]\<close> and
  3 over \<open>[-6, 6]\<close>.
\<close>

theorem five_linguistic_variables:
  assumes "partitions flat_saw"
  shows "\<exists>c VO Vw VF Vx Vv.
     create_controller flat_saw u = Inr c
     \<and> dom (variables c) = {''O'', ''w'', ''F'', ''x'', ''v''}
     \<and> variables c ''O'' = Some VO
     \<and> bound_in_order flat_saw VO (- 3 * pi / 8, 3 * pi / 8) 7
          [''Ovbn'', ''Obn'', ''Osn'', ''Oz'', ''Osp'', ''Obp'', ''Ovbp'']
     \<and> variables c ''w'' = Some Vw
     \<and> bound_in_order flat_saw Vw (- 3 * pi, 3 * pi) 5 [''wbn'', ''wsn'', ''wz'', ''wsp'', ''wbp'']
     \<and> variables c ''F'' = Some VF
     \<and> bound_in_order flat_saw VF (- 100, 100) 9
          [''Fvvbn'', ''Fvbn'', ''Fbn'', ''Fsn'', ''Fz'', ''Fsp'', ''Fbp'', ''Fvbp'', ''Fvvbp'']
     \<and> variables c ''x'' = Some Vx
     \<and> bound_in_order flat_saw Vx (- 10, 10) 3 [''xn'', ''xz'', ''xp'']
     \<and> variables c ''v'' = Some Vv
     \<and> bound_in_order flat_saw Vv (- 6, 6) 3 [''vn'', ''vz'', ''vp'']"
proof -
  let ?VO = "\<lparr>kind = InputVariable Plain, adjectives = O_adjectives flat_saw\<rparr>"
  let ?Vw = "\<lparr>kind = InputVariable Plain, adjectives = w_adjectives flat_saw\<rparr>"
  let ?VF = "\<lparr>kind = OutputVariable Defuzzy, adjectives = F_adjectives flat_saw\<rparr>"
  let ?Vx = "\<lparr>kind = InputVariable Plain, adjectives = x_adjectives flat_saw\<rparr>"
  let ?Vv = "\<lparr>kind = InputVariable Plain, adjectives = v_adjectives flat_saw\<rparr>"
  let ?c = "\<lparr>variables = [''O'' \<mapsto> ?VO, ''w'' \<mapsto> ?Vw, ''F'' \<mapsto> ?VF, ''x'' \<mapsto> ?Vx, ''v'' \<mapsto> ?Vv],
             tables = [primary_table flat_saw]\<rparr>"
  have len: "length (flat_saw r n) = n" for r n
    using assms unfolding partitions_def by blast
  have c: "create_controller flat_saw u = Inr ?c" by (rule create_controller_eval [OF assms])
  have d: "dom (variables ?c) = {''O'', ''w'', ''F'', ''x'', ''v''}"
    by (simp only: controller.simps dom_fun_upd dom_empty option.simps if_False) blast
  have vars: "variables ?c ''O'' = Some ?VO" "variables ?c ''w'' = Some ?Vw"
    "variables ?c ''F'' = Some ?VF" "variables ?c ''x'' = Some ?Vx" "variables ?c ''v'' = Some ?Vv"
    by simp_all
  have bO: "bound_in_order flat_saw ?VO (- 3 * pi / 8, 3 * pi / 8) 7
          [''Ovbn'', ''Obn'', ''Osn'', ''Oz'', ''Osp'', ''Obp'', ''Ovbp'']"
    unfolding O_adjectives_def O_names_def by (rule bound_in_orderI) (simp_all add: len)
  have bw: "bound_in_order flat_saw ?Vw (- 3 * pi, 3 * pi) 5 [''wbn'', ''wsn'', ''wz'', ''wsp'', ''wbp'']"
    unfolding w_adjectives_def w_names_def by (rule bound_in_orderI) (simp_all add: len)
  have bF: "bound_in_order flat_saw ?VF (- 100, 100) 9
          [''Fvvbn'', ''Fvbn'', ''Fbn'', ''Fsn'', ''Fz'', ''Fsp'', ''Fbp'', ''Fvbp'', ''Fvvbp'']"
    unfolding F_adjectives_def F_names_def by (rule bound_in_orderI) (simp_all add: len)
  have bx: "bound_in_order flat_saw ?Vx (- 10, 10) 3 [''xn'', ''xz'', ''xp'']"
    unfolding x_adjectives_def x_names_def by (rule bound_in_orderI) (simp_all add: len)
  have bv: "bound_in_order flat_saw ?Vv (- 6, 6) 3 [''vn'', ''vz'', ''vp'']"
    unfolding v_adjectives_def v_names_def by (rule bound_in_orderI) (simp_all add: len)
  show ?thesis
    by (rule exI [of _ ?c], rule exI [of _ ?VO], rule exI [of _ ?Vw], rule exI [of _ ?VF],
        rule exI [of _ ?Vx], rule exI [of _ ?Vv])
      (intro conjI c d vars bO bw bF bx bv)
qed

theorem five_linguistic_variables_witness:
  "partitions flat_saw_descriptors
   \<and> (\<exists>c Vx. create_controller flat_saw_descriptors () = Inr c
        \<and> dom (variables c) = {''O'', ''w'', ''F'', ''x'', ''v''}
        \<and> variables c ''x'' = Some Vx
        \<and> bound_in_order flat_saw_descriptors Vx (- 10, 10) 3 [''xn'', ''xz'', ''xp''])"
proof -
  obtain c Vx where "create_controller flat_saw_descriptors () = Inr c"
    "dom (variables c) = {''O'', ''w'', ''F'', ''x'', ''v''}" "variables c ''x'' = Some Vx"
    "bound_in_order flat_saw_descriptors Vx (- 10, 10) 3 [''xn'', ''xz'', ''xp'']"
    using five_linguistic_variables [OF partitions_descriptors, of "()"]
    by (elim exE conjE) (rule that)
  then show ?thesis using partitions_descriptors by (intro conjI exI)
qed

text \<open>
  Claim C4. With a partitioner that returns as many descriptors as asked, the assembly
  succeeds and registers one table, whose rows are the seven angle categories and whose
  columns are the five angular velocity categories, a full 7 by 5 grid: each of the 35
  pairs of an angle name and an angular velocity name has one cell, which is the
  adjective of a defined force name. The pair (Ovbn, wbn) has Fvvbn, the pair
  (Ovbp, wbp) has Fvvbp and the pair (Oz, wz) has Fz.
\<close>

theorem primary_rule_table_total:
  assumes "partitions flat_saw"
  shows "\<exists>c F rows cols grid.
     create_controller flat_saw u = Inr c \<and> tables c = [(rows, cols, grid)]
     \<and> variables c ''F'' = Some F
     \<and> comprehension (adjective_of c ''O'') O_names = Inr rows
     \<and> comprehension (adjective_of c ''w'') w_names = Inr cols
     \<and> length rows = 7 \<and> length cols = 5
     \<and> length grid = 7 \<and> list_all (\<lambda>row. length row = 5) grid
     \<and> distinct O_names \<and> distinct w_names \<and> length (List.product O_names w_names) = 35
     \<and> list_all (\<lambda>(on, wn). \<exists>fn a. fn \<in> set F_names
           \<and> table_lookup O_names w_names table_names_1 on wn = Some fn
           \<and> adjectives F fn = Some a
           \<and> table_lookup O_names w_names grid on wn = Some a) (List.product O_names w_names)
     \<and> table_lookup O_names w_names table_names_1 ''Ovbn'' ''wbn'' = Some ''Fvvbn''
     \<and> table_lookup O_names w_names table_names_1 ''Ovbp'' ''wbp'' = Some ''Fvvbp''
     \<and> table_lookup O_names w_names table_names_1 ''Oz'' ''wz'' = Some ''Fz''"
proof -
  let ?c = "\<lparr>variables =
               [''O'' \<mapsto> \<lparr>kind = InputVariable Plain, adjectives = O_adjectives flat_saw\<rparr>,
                ''w'' \<mapsto> \<lparr>kind = InputVariable Plain, adjectives = w_adjectives flat_saw\<rparr>,
                ''F'' \<mapsto> \<lparr>kind = OutputVariable Defuzzy, adjectives = F_adjectives flat_saw\<rparr>,
                ''x'' \<mapsto> \<lparr>kind = InputVariable Plain, adjectives = x_adjectives flat_saw\<rparr>,
                ''v'' \<mapsto> \<lparr>kind = InputVariable Plain, adjectives = v_adjectives flat_saw\<rparr>],
             tables = [primary_table flat_saw]\<rparr>"
  let ?rows = "map (\<lambda>n. the (O_adjectives flat_saw n)) O_names"
  let ?cols = "map (\<lambda>n. the (w_adjectives flat_saw n)) w_names"
  let ?grid = "map (map (\<lambda>n. the (F_adjectives flat_saw n))) table_names_1"
  have c: "create_controller flat_saw u = Inr ?c" by (rule create_controller_eval [OF assms])
  have t: "tables ?c = [(?rows, ?cols, ?grid)]" by (simp add: primary_table_def)
  have F: "variables ?c ''F'' = Some \<lparr>kind = OutputVariable Defuzzy, adjectives = F_adjectives flat_saw\<rparr>"
    by simp
  have rows: "comprehension (adjective_of ?c ''O'') O_names = Inr ?rows"
  proof (rule comprehension_map)
    fix n assume "n \<in> set O_names"
    then show "adjective_of ?c ''O'' n = Inr (the (O_adjectives flat_saw n))"
      using adjectives_dom(1) [OF assms]
      by (subst adjective_of_eval [where V = "the (variables ?c ''O'')"]) simp_all
  qed
  have cols: "comprehension (adjective_of ?c ''w'') w_names = Inr ?cols"
  proof (rule comprehension_map)
    fix n assume "n \<in> set w_names"
    then show "adjective_of ?c ''w'' n = Inr (the (w_adjectives flat_saw n))"
      using adjectives_dom(2) [OF assms]
      by (subst adjective_of_eval [where V = "the (variables ?c ''w'')"]) simp_all
  qed
  have shape: "length ?rows = 7" "length ?cols = 5" "length ?grid = 7"
    "list_all (\<lambda>row. length row = 5) ?grid"
    using table_names_1_shape by (simp_all add: names_shape list_all_iff)
  have count: "length (List.product O_names w_names) = 35" by (simp add: names_shape)
  have cells: "list_all (\<lambda>(on, wn). \<exists>fn a. fn \<in> set F_names
           \<and> table_lookup O_names w_names table_names_1 on wn = Some fn
           \<and> adjectives \<lparr>kind = OutputVariable Defuzzy, adjectives = F_adjectives flat_saw\<rparr> fn = Some a
           \<and> table_lookup O_names w_names ?grid on wn = Some a) (List.product O_names w_names)"
    unfolding list_all_iff using primary_table_cells [OF assms] by auto
  show ?thesis
    using c t F rows cols shape count cells names_shape(6,7) table_names_1_corners by blast
qed

theorem primary_rule_table_total_witness:
  "partitions flat_saw_descriptors
   \<and> (\<exists>c rows cols grid. create_controller flat_saw_descriptors () = Inr c
        \<and> tables c = [(rows, cols, grid)]
        \<and> length grid = 7 \<and> list_all (\<lambda>row. length row = 5) grid)"
  using primary_rule_table_total [OF partitions_descriptors, of "()"] partitions_descriptors
  by blast

lemma not_cart_table: "partitions flat_saw \<Longrightarrow>
   \<not> cart_table_registered \<lparr>variables = vs, tables = [primary_table flat_saw]\<rparr>"
proof
  assume "partitions flat_saw"
    and "cart_table_registered \<lparr>variables = vs, tables = [primary_table flat_saw]\<rparr>"
  then have "comprehension (adjective_of \<lparr>variables = vs, tables = [primary_table flat_saw]\<rparr> ''x'') x_names
      = Inr (map (\<lambda>n. the (O_adjectives flat_saw n)) O_names)"
    by (simp add: cart_table_registered_def primary_table_def)
  moreover have "comprehension f ns = Inr ys \<Longrightarrow> length ys = length ns"
    for f :: "string \<Rightarrow> error + 'a adjective" and ns ys
    by (induction ns arbitrary: ys) (auto split: sum.splits)
  ultimately have "length (map (\<lambda>n. the (O_adjectives flat_saw n)) O_names) = length x_names"
    by blast
  then show False by (simp add: names_shape)
qed

text \<open>
  Claim C8, amended. The second table is data of the assembly: when the body ends, the
  local \<open>table_names\<close> holds it, a full 3 by 3 grid over the cart position and cart
  velocity names whose cells are defined force names. It is not registered: the
  controller returned holds one table, the primary one, and none over the cart position
  and cart velocity categories.
\<close>

theorem secondary_table_not_registered:
  assumes "partitions flat_saw"
  shows "\<exists>L F. create_controller_body flat_saw u = Inr L
     \<and> create_controller flat_saw u = Inr (local_controller L)
     \<and> local_table_names L =
          [[''Fbp'', ''Fbp'', ''Fz''], [''Fbp'', ''Fz'', ''Fbn''], [''Fz'', ''Fbn'', ''Fbn'']]
     \<and> length (local_table_names L) = length x_names
     \<and> list_all (\<lambda>row. length row = length v_names) (local_table_names L)
     \<and> variables (local_controller L) ''F'' = Some F
     \<and> list_all (list_all (\<lambda>n. n \<in> dom (adjectives F))) (local_table_names L)
     \<and> length (tables (local_controller L)) = 1
     \<and> \<not> cart_table_registered (local_controller L)"
proof -
  let ?F = "\<lparr>kind = OutputVariable Defuzzy, adjectives = F_adjectives flat_saw\<rparr>"
  have cells: "list_all (list_all (\<lambda>n. n \<in> dom (adjectives ?F))) table_names_2"
    using table_names_2_F adjectives_dom(3) [OF assms] by simp
  show ?thesis
    using cells not_cart_table [OF assms]
    by (simp add: create_controller_body_eval [OF assms] create_controller_eval [OF assms]
        names_shape) (simp add: table_names_2_def)
qed

theorem secondary_table_not_registered_witness:
  "partitions flat_saw_descriptors
   \<and> (\<exists>L. create_controller_body flat_saw_descriptors () = Inr L
        \<and> length (local_table_names L) = 3
        \<and> length (tables (local_controller L)) = 1
        \<and> \<not> cart_table_registered (local_controller L))"
  using secondary_table_not_registered [OF partitions_descriptors, of "()"] partitions_descriptors
  by (auto simp: names_shape)

text \<open>
  Claim C8 as stated fails in its last part: \<open>create_controller\<close> takes no argument, and
  for no call of it is a table over the cart categories registered, so no flag enables
  the second table.
\<close>

theorem secondary_table_flag_counterexample:
  "\<not> (\<exists>u c. create_controller flat_saw_descriptors u = Inr c \<and> cart_table_registered c)"
  using not_cart_table [OF partitions_descriptors]
  by (auto simp: create_controller_eval [OF partitions_descriptors])

end
